theory Spec2Isabelle
  imports Complex_Main
begin

section \<open>JavaScript numbers\<close>

text \<open>
  The handlers of \<^verbatim>\<open>src/index.js\<close> compute with JavaScript numbers. A number is modelled
  as an exact rational, one of the two infinities, or NaN. Rounding to a double, overflow
  of a finite computation and the sign of zero are not modelled: finite arithmetic is exact.
  NaN and the infinities follow IEEE 754, since the code's \<^verbatim>\<open>||\<close> guards depend on them.
\<close>

datatype jsnum = Fin rat | PInf | NInf | NaN

fun js_neg :: "jsnum \<Rightarrow> jsnum" where
  "js_neg (Fin a) = Fin (- a)"
| "js_neg PInf = NInf"
| "js_neg NInf = PInf"
| "js_neg NaN = NaN"

fun js_add :: "jsnum \<Rightarrow> jsnum \<Rightarrow> jsnum" where
  "js_add NaN _ = NaN"
| "js_add _ NaN = NaN"
| "js_add (Fin a) (Fin b) = Fin (a + b)"
| "js_add (Fin _) PInf = PInf"
| "js_add (Fin _) NInf = NInf"
| "js_add PInf (Fin _) = PInf"
| "js_add NInf (Fin _) = NInf"
| "js_add PInf PInf = PInf"
| "js_add NInf NInf = NInf"
| "js_add PInf NInf = NaN"
| "js_add NInf PInf = NaN"

definition js_sub :: "jsnum \<Rightarrow> jsnum \<Rightarrow> jsnum" where
  "js_sub a b = js_add a (js_neg b)"

text \<open>The sign of an infinite product; zero times infinity is NaN.\<close>

definition js_inf_times :: "bool \<Rightarrow> rat \<Rightarrow> jsnum" where
  "js_inf_times positive b =
     (if b = 0 then NaN else if (0 < b) = positive then PInf else NInf)"

fun js_mul :: "jsnum \<Rightarrow> jsnum \<Rightarrow> jsnum" where
  "js_mul NaN _ = NaN"
| "js_mul _ NaN = NaN"
| "js_mul (Fin a) (Fin b) = Fin (a * b)"
| "js_mul (Fin a) PInf = js_inf_times True a"
| "js_mul (Fin a) NInf = js_inf_times False a"
| "js_mul PInf (Fin b) = js_inf_times True b"
| "js_mul NInf (Fin b) = js_inf_times False b"
| "js_mul PInf PInf = PInf"
| "js_mul NInf NInf = PInf"
| "js_mul PInf NInf = NInf"
| "js_mul NInf PInf = NInf"

text \<open>\<^verbatim>\<open>x || 0\<close> on a number: zero and NaN are falsy and give the right operand.\<close>

definition js_truthy :: "jsnum \<Rightarrow> bool" where
  "js_truthy x = (x \<noteq> NaN \<and> x \<noteq> Fin 0)"

text \<open>
  \<^verbatim>\<open>stock.totalValue || 0\<close> where the field may be absent: an absent field reads as
  \<^verbatim>\<open>undefined\<close>, which is falsy.
\<close>

definition or_zero :: "jsnum option \<Rightarrow> jsnum" where
  "or_zero field = (case field of
       None \<Rightarrow> Fin 0
     | Some x \<Rightarrow> if js_truthy x then x else Fin 0)"

subsection \<open>parseFloat\<close>

text \<open>
  \<^verbatim>\<open>parseFloat\<close> skips leading white space and reads the longest prefix that is a decimal
  literal: an optional sign, then \<^verbatim>\<open>Infinity\<close> or digits with an optional fraction and an
  optional exponent. Without such a prefix the result is NaN. It never throws on a string.
  The value read is kept exact. Of the white space characters only those of ASCII are
  modelled.
\<close>

definition is_space :: "char \<Rightarrow> bool" where
  "is_space c = (c \<in> set [CHR '' '', CHR 0x09, CHR 0x0A, CHR 0x0B, CHR 0x0C, CHR 0x0D])"

definition is_digit :: "char \<Rightarrow> bool" where
  "is_digit c = ((48::nat) \<le> of_char c \<and> (of_char c :: nat) \<le> 57)"

definition digit_val :: "char \<Rightarrow> nat" where
  "digit_val c = of_char c - (48::nat)"

definition digits_val :: "string \<Rightarrow> nat" where
  "digits_val ds = foldl (\<lambda>acc c. 10 * acc + digit_val c) 0 ds"

text \<open>The sign character in front of a literal or of an exponent, and the rest.\<close>

fun split_sign :: "string \<Rightarrow> bool \<times> string" where
  "split_sign [] = (False, [])"
| "split_sign (c # cs) =
     (if c = CHR ''-'' then (True, cs)
      else if c = CHR ''+'' then (False, cs)
      else (False, c # cs))"

text \<open>
  The exponent part is read only when at least one digit follows the indicator and its
  sign; otherwise the literal ends before the indicator.
\<close>

fun exponent_part :: "string \<Rightarrow> int" where
  "exponent_part [] = 0"
| "exponent_part (c # cs) =
     (if c = CHR ''e'' \<or> c = CHR ''E'' then
        (let (negative, rest) = split_sign cs;
             ds = takeWhile is_digit rest
         in if ds = [] then 0
            else if negative then - int (digits_val ds) else int (digits_val ds))
      else 0)"

definition scale10 :: "rat \<Rightarrow> int \<Rightarrow> rat" where
  "scale10 m e = (if 0 \<le> e then m * 10 ^ nat e else m / 10 ^ nat (- e))"

definition parseFloat :: "string \<Rightarrow> jsnum" where
  "parseFloat inputString =
     (let trimmed = dropWhile is_space inputString;
          (negative, unsigned) = split_sign trimmed
      in if take 8 unsigned = ''Infinity'' then (if negative then NInf else PInf)
         else
           (let ip = takeWhile is_digit unsigned;
                after_ip = dropWhile is_digit unsigned;
                has_dot = (after_ip \<noteq> [] \<and> hd after_ip = CHR ''.'');
                fp = (if has_dot then takeWhile is_digit (tl after_ip) else []);
                after_fp = (if has_dot then dropWhile is_digit (tl after_ip) else after_ip)
            in if ip = [] \<and> fp = [] then NaN
               else
                 (let mantissa = of_nat (digits_val ip)
                                 + of_nat (digits_val fp) / 10 ^ length fp;
                      v = scale10 mantissa (exponent_part after_fp)
                  in Fin (if negative then - v else v))))"

section \<open>Holdings, the store and the quote provider\<close>

text \<open>
  A document of the \<^verbatim>\<open>portfolios\<close> collection as \<^verbatim>\<open>POST /portfolio/add\<close> writes it:
  the owner's uid, the ticker symbol, and the quantity and purchase price, here numbers
  as in the data model. A query snapshot pairs the store-assigned id with the data.
\<close>

record holding =
  uid :: string
  symbol :: string
  quantity :: jsnum
  purchasePrice :: jsnum

record doc =
  doc_id :: string
  doc_data :: holding

text \<open>
  The store as a handler finds it: the documents of the collection, in the order in which
  a query returns them, and the fault with which the service answers when it is not
  available. Every operation on an unavailable store throws that fault.
\<close>

record firestore =
  portfolios :: "doc list"
  fault :: "string option"

text \<open>\<^verbatim>\<open>db.collection("portfolios").where("uid", "==", u).get()\<close>, awaited.\<close>

definition where_uid_get :: "firestore \<Rightarrow> string \<Rightarrow> string + doc list" where
  "where_uid_get db u = (case fault db of
       Some msg \<Rightarrow> Inl msg
     | None \<Rightarrow> Inr (filter (\<lambda>d. uid (doc_data d) = u) (portfolios db)))"

text \<open>
  The outcome of one \<^verbatim>\<open>axios.get\<close>: the promise rejects (network error, non-2xx status),
  or it resolves with the response body. The body is a JSON object whose members are
  objects of string fields, as the provider sends it; a member that is absent reads as
  \<^verbatim>\<open>undefined\<close>.
\<close>

type_synonym json_fields = "string \<rightharpoonup> string"

datatype axios_outcome = Rejected string | Resolved "string \<rightharpoonup> json_fields"

datatype js_error = AxiosError string | TypeError string

definition quote_url :: "string \<Rightarrow> string \<Rightarrow> string" where
  "quote_url apikey ticker =
     ''https://www.alphavantage.co/query?function=GLOBAL_QUOTE&symbol='' @ ticker
       @ ''&apikey='' @ apikey"

text \<open>
  Lines 115 to 119: the awaited request and the price read from its body. Reading
  \<^verbatim>\<open>['05. price']\<close> of an absent \<^verbatim>\<open>'Global Quote'\<close> throws a TypeError; an absent price
  field is \<^verbatim>\<open>undefined\<close>, which \<^verbatim>\<open>parseFloat\<close> reads as the string \<^verbatim>\<open>undefined\<close>.
\<close>

definition quote_price :: "axios_outcome \<Rightarrow> js_error + jsnum" where
  "quote_price response = (case response of
       Rejected msg \<Rightarrow> Inl (AxiosError msg)
     | Resolved data \<Rightarrow> (case data ''Global Quote'' of
           None \<Rightarrow> Inl (TypeError ''Cannot read properties of undefined'')
         | Some q \<Rightarrow> Inr (parseFloat (case q ''05. price'' of
                                        None \<Rightarrow> ''undefined''
                                      | Some price \<Rightarrow> price))))"

section \<open>The portfolio valuation of GET /portfolio\<close>

text \<open>
  An entry of \<^verbatim>\<open>stocks\<close>: the stored fields spread into a new object with the document
  id, and either the three computed fields or the \<^verbatim>\<open>error\<close> field. A field the object
  does not have is \<open>None\<close>.
\<close>

record stock = holding +
  stock_id :: string
  currentPrice :: "jsnum option"
  totalValue :: "jsnum option"
  profitLoss :: "jsnum option"
  error :: "string option"

text \<open>The callback of \<^verbatim>\<open>portfolio.docs.map\<close>, given the outcome of its own request.\<close>

definition valueHolding :: "axios_outcome \<Rightarrow> doc \<Rightarrow> stock" where
  "valueHolding response d =
     (let stockData = doc_data d in
      case quote_price response of
        Inr price \<Rightarrow>
          (let total = js_mul price (quantity stockData);
               profit = js_mul (js_sub price (purchasePrice stockData)) (quantity stockData)
           in \<lparr>uid = uid stockData, symbol = symbol stockData,
               quantity = quantity stockData, purchasePrice = purchasePrice stockData,
               stock_id = doc_id d,
               currentPrice = Some price, totalValue = Some total,
               profitLoss = Some profit, error = None\<rparr>)
      | Inl err \<Rightarrow>
          \<lparr>uid = uid stockData, symbol = symbol stockData,
           quantity = quantity stockData, purchasePrice = purchasePrice stockData,
           stock_id = doc_id d,
           currentPrice = None, totalValue = None, profitLoss = None,
           error = Some ''Failed to fetch current price''\<rparr>)"

text \<open>
  \<^verbatim>\<open>Promise.all(portfolio.docs.map(...))\<close>: one request per document, all issued before any
  is awaited, the results in the order of the documents. The provider is the environment:
  \<open>net i url\<close> is the outcome of the \<open>i\<close>-th request, so two requests for one symbol may
  end differently. No callback rejects, so \<^verbatim>\<open>Promise.all\<close> always resolves.
\<close>

definition valueStocks :: "(nat \<Rightarrow> string \<Rightarrow> axios_outcome) \<Rightarrow> string \<Rightarrow> doc list \<Rightarrow> stock list" where
  "valueStocks net apikey docs =
     map (\<lambda>(i, d). valueHolding (net i (quote_url apikey (symbol (doc_data d)))) d)
         (enumerate 0 docs)"

text \<open>
  The summary object. Its field \<^verbatim>\<open>totalValue\<close> is \<open>portfolioTotalValue\<close> here, since an
  entry has a field of that name too.
\<close>

record summary =
  stocks :: "stock list"
  portfolioTotalValue :: jsnum
  totalProfitLoss :: jsnum

text \<open>Lines 139 to 143: the two \<^verbatim>\<open>reduce\<close> calls, left to right from 0.\<close>

definition portfolioSummary :: "stock list \<Rightarrow> summary" where
  "portfolioSummary sts =
     \<lparr>stocks = sts,
      portfolioTotalValue = foldl (\<lambda>sum st. js_add sum (or_zero (totalValue st))) (Fin 0) sts,
      totalProfitLoss = foldl (\<lambda>sum st. js_add sum (or_zero (profitLoss st))) (Fin 0) sts\<rparr>"

section \<open>Bearer tokens and the access gate\<close>

text \<open>
  A token of the \<^verbatim>\<open>jsonwebtoken\<close> library: the algorithm of its signature, the key it
  was signed with, and its claims. The signature is ideal: a token verifies under a key
  exactly when it was signed with that key. The claims are the object given to
  \<^verbatim>\<open>jwt.sign\<close> (a uid, and an admin flag when the object has one) with the issue and
  expiry times, in seconds, that the library adds.
\<close>

datatype jwt_alg = HS256 | RS256

record token_input =
  uid_claim :: string
  admin_claim :: "bool option"

record claims = token_input +
  iat_claim :: nat
  exp_claim :: "nat option"

record jwt =
  alg :: jwt_alg
  signing_key :: string
  payload :: claims

text \<open>The value of the \<^verbatim>\<open>authorization\<close> header: a string that is a token, or not.\<close>

datatype credential = Malformed string | Signed jwt


datatype verify_error = JsonWebTokenError string | TokenExpiredError

text \<open>
  \<^verbatim>\<open>jwt.verify(token, secret, callback)\<close>: the callback receives an error for a string that
  is not a token, for a signature that does not verify, and for a token whose expiry time
  has been reached; otherwise it receives the claims.
\<close>

definition jwt_verify :: "credential \<Rightarrow> string \<Rightarrow> nat \<Rightarrow> verify_error + claims" where
  "jwt_verify token secret now = (case token of
       Malformed _ \<Rightarrow> Inl (JsonWebTokenError ''jwt malformed'')
     | Signed t \<Rightarrow>
         if alg t \<noteq> HS256 then Inl (JsonWebTokenError ''invalid algorithm'')
         else if signing_key t \<noteq> secret then Inl (JsonWebTokenError ''invalid signature'')
         else (case exp_claim (payload t) of
                 None \<Rightarrow> Inr (payload t)
               | Some e \<Rightarrow> if e \<le> now then Inl TokenExpiredError else Inr (payload t)))"

datatype body =
    Text string
  | SummaryBody summary
  | TokenBody credential
  | DocsBody "holding list"

datatype response = Response (status: nat) (body: body)

text \<open>
  \<^verbatim>\<open>verifyToken(req, res, next)\<close>, lines 40 to 48. \<open>res\<close> sends a response and ends the
  request; \<open>next\<close> is the protected handler, called with the decoded claims that the
  middleware stores in \<^verbatim>\<open>req.user\<close>. \<^verbatim>\<open>!token\<close> holds for a missing header and for an
  empty one.
\<close>

definition verifyToken ::
  "string \<Rightarrow> nat \<Rightarrow> credential option \<Rightarrow> (response \<Rightarrow> 'a) \<Rightarrow> (claims \<Rightarrow> 'a) \<Rightarrow> 'a" where
  "verifyToken SECRET_KEY now token res next = (case token of
       None \<Rightarrow> res (Response 403 (Text ''Token required''))
     | Some t \<Rightarrow>
         if t = Malformed [] then res (Response 403 (Text ''Token required''))
         else (case jwt_verify t SECRET_KEY now of
                 Inl err \<Rightarrow> res (Response 401 (Text ''Invalid token''))
               | Inr decoded \<Rightarrow> next decoded))"

section \<open>The handlers\<close>


text \<open>\<^verbatim>\<open>GET /portfolio\<close>, lines 106 to 149, behind the gate.\<close>

definition get_portfolio ::
  "firestore \<Rightarrow> (nat \<Rightarrow> string \<Rightarrow> axios_outcome) \<Rightarrow> string \<Rightarrow> claims \<Rightarrow> response" where
  "get_portfolio db net apikey user = (case where_uid_get db (uid_claim user) of
       Inl msg \<Rightarrow> Response 500 (Text msg)
     | Inr docs \<Rightarrow> Response 200 (SummaryBody (portfolioSummary (valueStocks net apikey docs))))"

text \<open>
  \<^verbatim>\<open>PUT /portfolio/:id\<close> and \<^verbatim>\<open>DELETE /portfolio/:id\<close>, lines 151 to 167. The body of a
  PUT is a patch: the fields it has replace the stored ones. Only the four fields of a
  holding are modelled. \<^verbatim>\<open>update\<close> throws for an empty patch and for a document that
  does not exist; \<^verbatim>\<open>delete\<close> succeeds whether or not the document exists.
\<close>

record patch =
  patch_uid :: "string option"
  patch_symbol :: "string option"
  patch_quantity :: "jsnum option"
  patch_purchasePrice :: "jsnum option"

definition apply_patch :: "patch \<Rightarrow> holding \<Rightarrow> holding" where
  "apply_patch p h =
     \<lparr>uid = (case patch_uid p of None \<Rightarrow> uid h | Some v \<Rightarrow> v),
      symbol = (case patch_symbol p of None \<Rightarrow> symbol h | Some v \<Rightarrow> v),
      quantity = (case patch_quantity p of None \<Rightarrow> quantity h | Some v \<Rightarrow> v),
      purchasePrice = (case patch_purchasePrice p of None \<Rightarrow> purchasePrice h | Some v \<Rightarrow> v)\<rparr>"

definition empty_patch :: "patch \<Rightarrow> bool" where
  "empty_patch p = (patch_uid p = None \<and> patch_symbol p = None
                    \<and> patch_quantity p = None \<and> patch_purchasePrice p = None)"

definition doc_update :: "firestore \<Rightarrow> string \<Rightarrow> patch \<Rightarrow> string + firestore" where
  "doc_update db i p =
     (if empty_patch p then Inl ''At least one field must be updated.''
      else case fault db of
          Some msg \<Rightarrow> Inl msg
        | None \<Rightarrow>
            if list_ex (\<lambda>d. doc_id d = i) (portfolios db) then
              Inr (db\<lparr>portfolios :=
                        map (\<lambda>d. if doc_id d = i
                                  then d\<lparr>doc_data := apply_patch p (doc_data d)\<rparr> else d)
                            (portfolios db)\<rparr>)
            else Inl ''NOT_FOUND: No document to update'')"

definition doc_delete :: "firestore \<Rightarrow> string \<Rightarrow> string + firestore" where
  "doc_delete db i = (case fault db of
       Some msg \<Rightarrow> Inl msg
     | None \<Rightarrow> Inr (db\<lparr>portfolios := filter (\<lambda>d. doc_id d \<noteq> i) (portfolios db)\<rparr>))"

text \<open>
  A request to the two routes: the header, the \<^verbatim>\<open>:id\<close> of the path and the body. The
  handlers return the response and the store they leave. Neither reads \<^verbatim>\<open>req.user\<close>.
\<close>

record request =
  authorization :: "credential option"
  params_id :: string
  req_body :: patch

definition put_portfolio :: "firestore \<Rightarrow> request \<Rightarrow> claims \<Rightarrow> response \<times> firestore" where
  "put_portfolio db req user = (case doc_update db (params_id req) (req_body req) of
       Inl msg \<Rightarrow> (Response 500 (Text msg), db)
     | Inr db' \<Rightarrow> (Response 200 (Text ''Stock updated''), db'))"

definition delete_portfolio :: "firestore \<Rightarrow> request \<Rightarrow> claims \<Rightarrow> response \<times> firestore" where
  "delete_portfolio db req user = (case doc_delete db (params_id req) of
       Inl msg \<Rightarrow> (Response 500 (Text msg), db)
     | Inr db' \<Rightarrow> (Response 200 (Text ''Stock removed''), db'))"

text \<open>The routes as \<^verbatim>\<open>app.put\<close> and \<^verbatim>\<open>app.delete\<close> register them: the gate, then the handler.\<close>

definition route_put :: "string \<Rightarrow> nat \<Rightarrow> firestore \<Rightarrow> request \<Rightarrow> response \<times> firestore" where
  "route_put SECRET_KEY now db req =
     verifyToken SECRET_KEY now (authorization req) (\<lambda>r. (r, db)) (put_portfolio db req)"

definition route_delete :: "string \<Rightarrow> nat \<Rightarrow> firestore \<Rightarrow> request \<Rightarrow> response \<times> firestore" where
  "route_delete SECRET_KEY now db req =
     verifyToken SECRET_KEY now (authorization req) (\<lambda>r. (r, db)) (delete_portfolio db req)"

definition route_get_portfolio ::
  "string \<Rightarrow> nat \<Rightarrow> firestore \<Rightarrow> (nat \<Rightarrow> string \<Rightarrow> axios_outcome) \<Rightarrow> string
     \<Rightarrow> credential option \<Rightarrow> response" where
  "route_get_portfolio SECRET_KEY now db net apikey token =
     verifyToken SECRET_KEY now token (\<lambda>r. r) (get_portfolio db net apikey)"




section \<open>Notions used to state the properties\<close>


text \<open>The sum of a list of numbers, and the number in a field that is present.\<close>

definition js_sum :: "jsnum list \<Rightarrow> jsnum" where
  "js_sum xs = foldl js_add (Fin 0) xs"


text \<open>
  The price lookup of the \<open>i\<close>-th document: the request that \<open>valueStocks\<close> issues for
  it and the price read from the answer. The lookup fails when it throws, which is when
  the request rejects or the body has no \<^verbatim>\<open>'Global Quote'\<close>.
\<close>

definition lookup :: "(nat \<Rightarrow> string \<Rightarrow> axios_outcome) \<Rightarrow> string \<Rightarrow> nat \<Rightarrow> doc \<Rightarrow> js_error + jsnum" where
  "lookup net apikey i d = quote_price (net i (quote_url apikey (symbol (doc_data d))))"


text \<open>The document an entry was made from: its id and its stored fields.\<close>

definition stock_source :: "stock \<Rightarrow> doc" where
  "stock_source st =
     \<lparr>doc_id = stock_id st,
      doc_data = \<lparr>uid = uid st, symbol = symbol st, quantity = quantity st,
                  purchasePrice = purchasePrice st\<rparr>\<rparr>"

text \<open>The entry of a failed lookup: the stored fields, the id and the marker only.\<close>

definition failed_entry :: "doc \<Rightarrow> stock" where
  "failed_entry d =
     \<lparr>uid = uid (doc_data d), symbol = symbol (doc_data d),
      quantity = quantity (doc_data d), purchasePrice = purchasePrice (doc_data d),
      stock_id = doc_id d,
      currentPrice = None, totalValue = None, profitLoss = None,
      error = Some ''Failed to fetch current price''\<rparr>"

subsection \<open>Sample data\<close>

definition quote_body :: "string \<Rightarrow> axios_outcome" where
  "quote_body price = Resolved [''Global Quote'' \<mapsto> [''05. price'' \<mapsto> price]]"

definition doc_AAA :: doc where
  "doc_AAA = \<lparr>doc_id = ''h1'',
              doc_data = \<lparr>uid = ''alice'', symbol = ''AAA'', quantity = Fin 10,
                          purchasePrice = Fin 5\<rparr>\<rparr>"

definition doc_BAD :: doc where
  "doc_BAD = \<lparr>doc_id = ''h2'',
              doc_data = \<lparr>uid = ''alice'', symbol = ''BAD'', quantity = Fin 1,
                          purchasePrice = Fin 1\<rparr>\<rparr>"

definition doc_CCC :: doc where
  "doc_CCC = \<lparr>doc_id = ''h3'',
              doc_data = \<lparr>uid = ''bob'', symbol = ''CCC'', quantity = Fin 2,
                          purchasePrice = Fin 3\<rparr>\<rparr>"

definition sample_db :: firestore where
  "sample_db = \<lparr>portfolios = [doc_AAA, doc_CCC, doc_BAD], fault = None\<rparr>"

text \<open>The first request is answered with the price 7, every other request rejects.\<close>

definition sample_net :: "nat \<Rightarrow> string \<Rightarrow> axios_outcome" where
  "sample_net i url = (if i = 0 then quote_body ''7'' else Rejected ''Network Error'')"

text \<open>Every request is answered with the price 7.\<close>

definition steady_net :: "nat \<Rightarrow> string \<Rightarrow> axios_outcome" where
  "steady_net i url = quote_body ''7''"

definition claims_of :: "string \<Rightarrow> claims" where
  "claims_of u = \<lparr>uid_claim = u, admin_claim = None, iat_claim = 1000, exp_claim = Some 4600\<rparr>"

definition token_of :: "string \<Rightarrow> credential" where
  "token_of u = Signed \<lparr>alg = HS256, signing_key = ''s3cret'', payload = claims_of u\<rparr>"


text \<open>The same claims under a signature made with another key.\<close>

definition forged_token :: credential where
  "forged_token = Signed \<lparr>alg = HS256, signing_key = ''guess'', payload = claims_of ''alice''\<rparr>"

definition sample_handler :: "claims \<Rightarrow> response" where
  "sample_handler user = Response 200 (Text ''handler ran'')"

text \<open>A request of the given user for the document \<open>i\<close>, with a patch of the quantity.\<close>

definition sample_request :: "string \<Rightarrow> string \<Rightarrow> request" where
  "sample_request u i =
     \<lparr>authorization = Some (token_of u), params_id = i,
      req_body = \<lparr>patch_uid = None, patch_symbol = None, patch_quantity = Some (Fin 0),
                  patch_purchasePrice = None\<rparr>\<rparr>"


section \<open>Properties of the valuation\<close>

subsection \<open>Arithmetic and single entries\<close>

lemma js_add_zero: "js_add a (Fin 0) = a"
  by (cases a) simp_all

lemma length_valueStocks: "length (valueStocks net apikey docs) = length docs"
  by (simp add: valueStocks_def)

lemma nth_valueStocks:
  "i < length docs \<Longrightarrow>
     valueStocks net apikey docs ! i
       = valueHolding (net i (quote_url apikey (symbol (doc_data (docs ! i))))) (docs ! i)"
  by (simp add: valueStocks_def nth_enumerate_eq)

lemma stock_source_valueHolding: "stock_source (valueHolding response d) = d"
  by (simp add: stock_source_def valueHolding_def Let_def split: sum.split)


lemma valueHolding_priced:
  "quote_price response = Inr p \<Longrightarrow>
     valueHolding response d =
       \<lparr>uid = uid (doc_data d), symbol = symbol (doc_data d),
        quantity = quantity (doc_data d), purchasePrice = purchasePrice (doc_data d),
        stock_id = doc_id d,
        currentPrice = Some p,
        totalValue = Some (js_mul p (quantity (doc_data d))),
        profitLoss = Some (js_mul (js_sub p (purchasePrice (doc_data d))) (quantity (doc_data d))),
        error = None\<rparr>"
  by (simp add: valueHolding_def Let_def)




lemma or_zero_NaN: "or_zero (Some NaN) = Fin 0"
  by (simp add: or_zero_def js_truthy_def)







lemma get_portfolio_ok:
  "where_uid_get db (uid_claim user) = Inr docs \<Longrightarrow>
     get_portfolio db net apikey user
       = Response 200 (SummaryBody (portfolioSummary (valueStocks net apikey docs)))"
  by (simp add: get_portfolio_def)

lemma stocks_portfolioSummary: "stocks (portfolioSummary sts) = sts"
  by (simp add: portfolioSummary_def)


lemma js_sum_Fin: "js_sum (map Fin xs) = Fin (sum_list xs)"
proof -
  have "foldl js_add (Fin a) (map Fin xs) = Fin (a + sum_list xs)" for a
    by (induction xs arbitrary: a) (simp_all add: add.assoc)
  from this [of 0] show ?thesis by (simp add: js_sum_def)
qed

lemma foldl_skip_zero:
  "or_zero (f st) = Fin 0 \<Longrightarrow>
     foldl (\<lambda>sum s. js_add sum (or_zero (f s))) a (xs @ st # ys)
       = foldl (\<lambda>sum s. js_add sum (or_zero (f s))) a (xs @ ys)"
  by (simp add: js_add_zero)

lemma js_sub_NaN: "js_sub NaN b = NaN"
  by (simp add: js_sub_def)

lemma no_holdings_query:
  "fault db = None \<Longrightarrow> \<forall>d\<in>set (portfolios db). uid (doc_data d) \<noteq> u \<Longrightarrow>
     where_uid_get db u = Inr []"
  by (simp add: where_uid_get_def filter_empty_conv)

subsection \<open>The sample portfolio\<close>

lemma sample_query:
  "where_uid_get sample_db (uid_claim (claims_of ''alice'')) = Inr [doc_AAA, doc_BAD]"
  by (simp add: where_uid_get_def sample_db_def claims_of_def doc_AAA_def doc_BAD_def doc_CCC_def)


lemmas parse_defs = parseFloat_def is_space_def is_digit_def digits_val_def digit_val_def scale10_def




lemma steady_lookup: "lookup steady_net apikey i d = Inr (Fin 7)"
  by (simp add: lookup_def steady_net_def quote_body_def quote_price_def parse_defs)

subsection \<open>Totals under partial failure\<close>



subsection \<open>Isolation of the lookups\<close>

text \<open>
  C2. The handler answers 500 exactly when the read of the store fails, with the message
  of that failure. When the read succeeds it answers 200 whatever the lookups do, and
  changing the outcome of the \<open>i\<close>-th request alone, for instance into a failure, leaves
  the number of entries and every entry other than the \<open>i\<close>-th as they were.
\<close>

theorem lookup_isolation:
  "(\<forall>msg. where_uid_get db (uid_claim user) = Inl msg \<longrightarrow>
       get_portfolio db net apikey user = Response 500 (Text msg))
   \<and> (\<forall>docs. where_uid_get db (uid_claim user) = Inr docs \<longrightarrow>
         status (get_portfolio db net apikey user) = 200
         \<and> (\<forall>net' i. (\<forall>j. j \<noteq> i \<longrightarrow> net' j = net j) \<longrightarrow>
               (\<exists>sm sm'. get_portfolio db net apikey user = Response 200 (SummaryBody sm)
                  \<and> get_portfolio db net' apikey user = Response 200 (SummaryBody sm')
                  \<and> length (stocks sm) = length docs
                  \<and> length (stocks sm') = length docs
                  \<and> (\<forall>j<length docs. j \<noteq> i \<longrightarrow> stocks sm' ! j = stocks sm ! j))))"
proof (intro conjI allI impI)
  fix msg assume "where_uid_get db (uid_claim user) = Inl msg"
  then show "get_portfolio db net apikey user = Response 500 (Text msg)"
    by (simp add: get_portfolio_def)
next
  fix docs assume "where_uid_get db (uid_claim user) = Inr docs"
  then show "status (get_portfolio db net apikey user) = 200"
    by (simp add: get_portfolio_ok)
next
  fix docs net' i
  assume q: "where_uid_get db (uid_claim user) = Inr docs"
    and same: "\<forall>j. j \<noteq> i \<longrightarrow> net' j = net j"
  have "\<forall>j<length docs. j \<noteq> i \<longrightarrow>
      valueStocks net' apikey docs ! j = valueStocks net apikey docs ! j"
    using same by (simp add: nth_valueStocks)
  then show "\<exists>sm sm'. get_portfolio db net apikey user = Response 200 (SummaryBody sm)
                  \<and> get_portfolio db net' apikey user = Response 200 (SummaryBody sm')
                  \<and> length (stocks sm) = length docs
                  \<and> length (stocks sm') = length docs
                  \<and> (\<forall>j<length docs. j \<noteq> i \<longrightarrow> stocks sm' ! j = stocks sm ! j)"
    by (simp add: get_portfolio_ok [OF q] stocks_portfolioSummary length_valueStocks)
qed

theorem lookup_isolation_witness:
  "where_uid_get (sample_db\<lparr>fault := Some ''UNAVAILABLE''\<rparr>) (uid_claim (claims_of ''alice''))
     = Inl ''UNAVAILABLE''
   \<and> get_portfolio (sample_db\<lparr>fault := Some ''UNAVAILABLE''\<rparr>) steady_net ''key''
         (claims_of ''alice'')
       = Response 500 (Text ''UNAVAILABLE'')
   \<and> where_uid_get sample_db (uid_claim (claims_of ''alice'')) = Inr [doc_AAA, doc_BAD]
   \<and> lookup steady_net ''key'' 1 doc_BAD = Inr (Fin 7)
   \<and> lookup (steady_net(1 := \<lambda>url. Rejected ''Network Error'')) ''key'' 1 doc_BAD
       = Inl (AxiosError ''Network Error'')
   \<and> status (get_portfolio sample_db (steady_net(1 := \<lambda>url. Rejected ''Network Error''))
                ''key'' (claims_of ''alice'')) = 200
   \<and> (\<exists>sm sm'. get_portfolio sample_db steady_net ''key'' (claims_of ''alice'')
                   = Response 200 (SummaryBody sm)
         \<and> get_portfolio sample_db (steady_net(1 := \<lambda>url. Rejected ''Network Error''))
               ''key'' (claims_of ''alice'')
             = Response 200 (SummaryBody sm')
         \<and> length (stocks sm) = 2 \<and> length (stocks sm') = 2
         \<and> stocks sm' ! 0 = stocks sm ! 0)"
proof -
  let ?down = "sample_db\<lparr>fault := Some ''UNAVAILABLE''\<rparr>"
  let ?net' = "steady_net(1 := \<lambda>url. Rejected ''Network Error'')"
  have down: "where_uid_get ?down (uid_claim (claims_of ''alice'')) = Inl ''UNAVAILABLE''"
    by (simp add: where_uid_get_def)
  have r500: "get_portfolio ?down steady_net ''key'' (claims_of ''alice'')
      = Response 500 (Text ''UNAVAILABLE'')"
    using lookup_isolation [of ?down "claims_of ''alice''" steady_net "''key''"] down
    by blast
  have same: "\<forall>j. j \<noteq> 1 \<longrightarrow> ?net' j = steady_net j"
    by simp
  have up: "status (get_portfolio sample_db ?net' ''key'' (claims_of ''alice'')) = 200"
    using lookup_isolation [of sample_db "claims_of ''alice''" ?net' "''key''"] sample_query
    by blast
  obtain sm sm' where
    "get_portfolio sample_db steady_net ''key'' (claims_of ''alice'')
       = Response 200 (SummaryBody sm)"
    "get_portfolio sample_db ?net' ''key'' (claims_of ''alice'') = Response 200 (SummaryBody sm')"
    "length (stocks sm) = length [doc_AAA, doc_BAD]"
    "length (stocks sm') = length [doc_AAA, doc_BAD]"
    "\<forall>j<length [doc_AAA, doc_BAD]. j \<noteq> 1 \<longrightarrow> stocks sm' ! j = stocks sm ! j"
    using lookup_isolation [of sample_db "claims_of ''alice''" steady_net "''key''"]
      sample_query same
    by blast
  moreover have "lookup ?net' ''key'' 1 doc_BAD = Inl (AxiosError ''Network Error'')"
    by (simp add: lookup_def quote_price_def)
  ultimately show ?thesis
    using down r500 up sample_query steady_lookup by auto
qed

subsection \<open>Totals when every lookup succeeds\<close>



subsection \<open>One entry per holding\<close>

text \<open>
  C4. For the \<open>N\<close> holdings the store returns, \<open>N = 0\<close> included, and whatever the lookups
  do, \<open>stocks\<close> has exactly \<open>N\<close> entries, and reading the id and the stored fields off the
  entries gives back the holdings: none is dropped and none appears twice.
\<close>

theorem one_entry_per_holding:
  assumes "where_uid_get db (uid_claim user) = Inr docs"
  shows "\<exists>sm. get_portfolio db net apikey user = Response 200 (SummaryBody sm)
           \<and> length (stocks sm) = length docs
           \<and> map stock_source (stocks sm) = docs"
proof -
  have "map stock_source (valueStocks net apikey docs) = docs"
    by (rule nth_equalityI)
       (simp_all add: length_valueStocks nth_valueStocks stock_source_valueHolding)
  then show ?thesis
    by (simp add: get_portfolio_ok [OF assms] stocks_portfolioSummary length_valueStocks)
qed

theorem one_entry_per_holding_witness:
  "where_uid_get sample_db (uid_claim (claims_of ''alice'')) = Inr [doc_AAA, doc_BAD]
   \<and> (\<exists>sm. get_portfolio sample_db sample_net ''key'' (claims_of ''alice'')
               = Response 200 (SummaryBody sm)
           \<and> length (stocks sm) = 2
           \<and> map stock_source (stocks sm) = [doc_AAA, doc_BAD])"
  using one_entry_per_holding [OF sample_query, of sample_net "''key''"] sample_query
  by (simp add: numeral_2_eq_2)

subsection \<open>A price that does not parse\<close>

text \<open>
  C5, as the code has it. When the request of the \<open>i\<close>-th holding resolves with a
  \<^verbatim>\<open>'Global Quote'\<close> object whose price field does not parse as a number, nothing is
  thrown and the handler answers 200. The entry of that holding has no failure marker and
  has the fields \<open>currentPrice\<close>, \<open>totalValue\<close> and \<open>profitLoss\<close>, each NaN. It adds
  nothing to the totals: they are the totals of the summary without that entry.
\<close>

theorem unparsable_price_entry:
  assumes "where_uid_get db (uid_claim user) = Inr docs"
      and "i < length docs"
      and "net i (quote_url apikey (symbol (doc_data (docs ! i)))) = Resolved data"
      and "data ''Global Quote'' = Some q"
      and "parseFloat (case q ''05. price'' of None \<Rightarrow> ''undefined'' | Some price \<Rightarrow> price) = NaN"
  shows "\<exists>sm. get_portfolio db net apikey user = Response 200 (SummaryBody sm)
           \<and> stocks sm ! i =
               \<lparr>uid = uid (doc_data (docs ! i)), symbol = symbol (doc_data (docs ! i)),
                quantity = quantity (doc_data (docs ! i)),
                purchasePrice = purchasePrice (doc_data (docs ! i)),
                stock_id = doc_id (docs ! i),
                currentPrice = Some NaN, totalValue = Some NaN, profitLoss = Some NaN,
                error = None\<rparr>
           \<and> portfolioTotalValue sm
               = portfolioTotalValue
                   (portfolioSummary (take i (stocks sm) @ drop (Suc i) (stocks sm)))
           \<and> totalProfitLoss sm
               = totalProfitLoss
                   (portfolioSummary (take i (stocks sm) @ drop (Suc i) (stocks sm)))"
proof -
  let ?sts = "valueStocks net apikey docs"
  let ?st = "?sts ! i"
  have "quote_price (Resolved data) = Inr NaN"
    using assms(4,5) by (simp add: quote_price_def)
  then have st: "?st =
      \<lparr>uid = uid (doc_data (docs ! i)), symbol = symbol (doc_data (docs ! i)),
       quantity = quantity (doc_data (docs ! i)),
       purchasePrice = purchasePrice (doc_data (docs ! i)),
       stock_id = doc_id (docs ! i),
       currentPrice = Some NaN, totalValue = Some NaN, profitLoss = Some NaN,
       error = None\<rparr>"
    using assms(2,3) by (simp add: nth_valueStocks valueHolding_priced js_sub_NaN)
  have i: "i < length ?sts"
    using assms(2) by (simp add: length_valueStocks)
  then have split: "?sts = take i ?sts @ ?st # drop (Suc i) ?sts"
    by (rule id_take_nth_drop)
  have tv0: "or_zero (totalValue ?st) = Fin 0" and pl0: "or_zero (profitLoss ?st) = Fin 0"
    by (simp_all add: st or_zero_NaN)
  have tv: "portfolioTotalValue (portfolioSummary ?sts)
      = portfolioTotalValue (portfolioSummary (take i ?sts @ drop (Suc i) ?sts))"
    using foldl_skip_zero [of totalValue ?st "Fin 0" "take i ?sts" "drop (Suc i) ?sts", OF tv0] split
    by (simp add: portfolioSummary_def)
  have pl: "totalProfitLoss (portfolioSummary ?sts)
      = totalProfitLoss (portfolioSummary (take i ?sts @ drop (Suc i) ?sts))"
    using foldl_skip_zero [of profitLoss ?st "Fin 0" "take i ?sts" "drop (Suc i) ?sts", OF pl0] split
    by (simp add: portfolioSummary_def)
  show ?thesis
    using st tv pl by (simp add: get_portfolio_ok [OF assms(1)] stocks_portfolioSummary)
qed

theorem unparsable_price_entry_witness:
  "where_uid_get sample_db (uid_claim (claims_of ''alice'')) = Inr [doc_AAA, doc_BAD]
   \<and> (1::nat) < length [doc_AAA, doc_BAD]
   \<and> (steady_net(1 := \<lambda>url. quote_body ''N/A''))
         1 (quote_url ''key'' (symbol (doc_data ([doc_AAA, doc_BAD] ! 1))))
       = Resolved [''Global Quote'' \<mapsto> [''05. price'' \<mapsto> ''N/A'']]
   \<and> parseFloat ''N/A'' = NaN
   \<and> (\<exists>sm. get_portfolio sample_db (steady_net(1 := \<lambda>url. quote_body ''N/A'')) ''key''
                (claims_of ''alice'')
               = Response 200 (SummaryBody sm)
           \<and> stocks sm ! 1 =
               \<lparr>uid = ''alice'', symbol = ''BAD'', quantity = Fin 1, purchasePrice = Fin 1,
                stock_id = ''h2'',
                currentPrice = Some NaN, totalValue = Some NaN, profitLoss = Some NaN,
                error = None\<rparr>
           \<and> portfolioTotalValue sm
               = portfolioTotalValue
                   (portfolioSummary (take 1 (stocks sm) @ drop (Suc 1) (stocks sm)))
           \<and> totalProfitLoss sm
               = totalProfitLoss
                   (portfolioSummary (take 1 (stocks sm) @ drop (Suc 1) (stocks sm))))"
proof -
  let ?net = "steady_net(1 := \<lambda>url. quote_body ''N/A'')"
  let ?data = "[''Global Quote'' \<mapsto> [''05. price'' \<mapsto> ''N/A'']]"
  have i: "(1::nat) < length [doc_AAA, doc_BAD]"
    by simp
  have r: "?net 1 (quote_url ''key'' (symbol (doc_data ([doc_AAA, doc_BAD] ! 1))))
      = Resolved ?data"
    by (simp add: quote_body_def)
  have q: "?data ''Global Quote'' = Some [''05. price'' \<mapsto> ''N/A'']"
    by simp
  have nan: "parseFloat ''N/A'' = NaN"
    by (simp add: parse_defs)
  then have p: "parseFloat (case [''05. price'' \<mapsto> ''N/A''] ''05. price'' of
                    None \<Rightarrow> ''undefined'' | Some price \<Rightarrow> price) = NaN"
    by simp
  show ?thesis
    using unparsable_price_entry
            [of sample_db "claims_of ''alice''" "[doc_AAA, doc_BAD]" 1 ?net "''key''" ?data
                "[''05. price'' \<mapsto> ''N/A'']", OF sample_query i r q p]
      sample_query r nan
    by (simp add: doc_BAD_def)
qed

text \<open>
  The statement of C5 with the failure marker does not hold: the sample holding AAA, whose
  request resolves with the price \<^verbatim>\<open>N/A\<close>, is emitted without the marker and with the
  three computed fields.
\<close>

theorem unparsable_price_counterexample:
  "parseFloat ''N/A'' = NaN
   \<and> quote_price (quote_body ''N/A'') = Inr NaN
   \<and> valueHolding (quote_body ''N/A'') doc_AAA \<noteq> failed_entry doc_AAA
   \<and> error (valueHolding (quote_body ''N/A'') doc_AAA) = None
   \<and> currentPrice (valueHolding (quote_body ''N/A'') doc_AAA) = Some NaN
   \<and> totalValue (valueHolding (quote_body ''N/A'') doc_AAA) = Some NaN
   \<and> profitLoss (valueHolding (quote_body ''N/A'') doc_AAA) = Some NaN"
proof -
  have nan: "parseFloat ''N/A'' = NaN"
    by (simp add: parse_defs)
  then have q: "quote_price (quote_body ''N/A'') = Inr NaN"
    by (simp add: quote_price_def quote_body_def)
  show ?thesis
    using nan q by (simp add: valueHolding_priced failed_entry_def js_sub_NaN)
qed

subsection \<open>The empty portfolio\<close>

text \<open>
  C6. For an owner without holdings in an available store the handler answers 200 with
  an empty \<open>stocks\<close> and both totals 0.
\<close>

theorem empty_portfolio:
  assumes "fault db = None"
      and "\<forall>d\<in>set (portfolios db). uid (doc_data d) \<noteq> uid_claim user"
  shows "get_portfolio db net apikey user
           = Response 200 (SummaryBody \<lparr>stocks = [], portfolioTotalValue = Fin 0,
                                         totalProfitLoss = Fin 0\<rparr>)"
  using no_holdings_query [OF assms]
  by (simp add: get_portfolio_def valueStocks_def portfolioSummary_def)

theorem empty_portfolio_witness:
  "fault sample_db = None
   \<and> filter (\<lambda>d. uid (doc_data d) = uid_claim (claims_of ''carol'')) (portfolios sample_db) = []
   \<and> get_portfolio sample_db sample_net ''key'' (claims_of ''carol'')
       = Response 200 (SummaryBody \<lparr>stocks = [], portfolioTotalValue = Fin 0,
                                     totalProfitLoss = Fin 0\<rparr>)"
proof -
  have f: "fault sample_db = None"
    by (simp add: sample_db_def)
  have n: "\<forall>d\<in>set (portfolios sample_db). uid (doc_data d) \<noteq> uid_claim (claims_of ''carol'')"
    by (simp add: sample_db_def claims_of_def doc_AAA_def doc_BAD_def doc_CCC_def)
  then have "filter (\<lambda>d. uid (doc_data d) = uid_claim (claims_of ''carol''))
                    (portfolios sample_db) = []"
    by (simp add: filter_empty_conv)
  then show ?thesis
    using empty_portfolio [OF f n, of sample_net "''key''"] f by simp
qed

subsection \<open>The order of the entries\<close>

text \<open>
  C9. The \<open>i\<close>-th entry of \<open>stocks\<close> is the entry made from the \<open>i\<close>-th holding read from
  the store and the outcome of the \<open>i\<close>-th request, whatever the outcomes are; the
  holdings read are the owner's documents in the order in which the store returns them.
\<close>

theorem stocks_in_input_order:
  assumes "where_uid_get db (uid_claim user) = Inr docs"
  shows "\<exists>sm. get_portfolio db net apikey user = Response 200 (SummaryBody sm)
           \<and> (\<forall>i<length docs.
                 stocks sm ! i
                   = valueHolding (net i (quote_url apikey (symbol (doc_data (docs ! i)))))
                                  (docs ! i))
           \<and> docs = filter (\<lambda>d. uid (doc_data d) = uid_claim user) (portfolios db)"
proof -
  from assms have "docs = filter (\<lambda>d. uid (doc_data d) = uid_claim user) (portfolios db)"
    by (auto simp: where_uid_get_def split: option.splits)
  then show ?thesis
    by (simp add: get_portfolio_ok [OF assms] stocks_portfolioSummary nth_valueStocks)
qed

theorem stocks_in_input_order_witness:
  "where_uid_get sample_db (uid_claim (claims_of ''alice'')) = Inr [doc_AAA, doc_BAD]
   \<and> (\<exists>sm. get_portfolio sample_db sample_net ''key'' (claims_of ''alice'')
               = Response 200 (SummaryBody sm)
           \<and> stocks sm ! 0 = valueHolding (sample_net 0 (quote_url ''key'' ''AAA'')) doc_AAA
           \<and> stocks sm ! 1 = valueHolding (sample_net 1 (quote_url ''key'' ''BAD'')) doc_BAD
           \<and> stock_id (stocks sm ! 0) = ''h1''
           \<and> stock_id (stocks sm ! 1) = ''h2'')"
proof -
  obtain sm where sm: "get_portfolio sample_db sample_net ''key'' (claims_of ''alice'')
               = Response 200 (SummaryBody sm)"
    and nth: "\<forall>i<length [doc_AAA, doc_BAD].
                 stocks sm ! i
                   = valueHolding
                       (sample_net i
                          (quote_url ''key'' (symbol (doc_data ([doc_AAA, doc_BAD] ! i)))))
                       ([doc_AAA, doc_BAD] ! i)"
    using stocks_in_input_order [OF sample_query, of sample_net "''key''"] by blast
  have sa: "symbol (doc_data doc_AAA) = ''AAA''" by (simp add: doc_AAA_def)
  have sb: "symbol (doc_data doc_BAD) = ''BAD''" by (simp add: doc_BAD_def)
  from nth have n0: "stocks sm ! 0 = valueHolding (sample_net 0 (quote_url ''key'' ''AAA'')) doc_AAA"
    using sa by force
  from nth have n1: "stocks sm ! 1 = valueHolding (sample_net 1 (quote_url ''key'' ''BAD'')) doc_BAD"
    using sb by force
  have "stock_id (valueHolding r doc_AAA) = ''h1''" "stock_id (valueHolding r doc_BAD) = ''h2''" for r
    using stock_source_valueHolding [of r doc_AAA] stock_source_valueHolding [of r doc_BAD]
    by (simp_all add: stock_source_def doc_AAA_def doc_BAD_def)
  with sm n0 n1 show ?thesis
    using sample_query by simp
qed

section \<open>Properties of the access gate and of the guarded routes\<close>

subsection \<open>Verification of tokens\<close>

lemma jwt_verify_expired:
  "alg t = HS256 \<Longrightarrow> signing_key t = key \<Longrightarrow> exp_claim (payload t) = Some e \<Longrightarrow> e \<le> now \<Longrightarrow>
     jwt_verify (Signed t) key now = Inl TokenExpiredError"
  by (simp add: jwt_verify_def)

lemma jwt_verify_forged:
  "signing_key t \<noteq> key \<Longrightarrow> \<exists>msg. jwt_verify (Signed t) key now = Inl (JsonWebTokenError msg)"
  by (simp add: jwt_verify_def)

lemma jwt_verify_Inr_not_empty: "jwt_verify t key now = Inr u \<Longrightarrow> t \<noteq> Malformed []"
  by (auto simp: jwt_verify_def)

lemma verifyToken_pass:
  "jwt_verify t key now = Inr u \<Longrightarrow> verifyToken key now (Some t) res next = next u"
  using jwt_verify_Inr_not_empty [of t key now u]
  by (simp add: verifyToken_def)

lemma token_of_valid:
  "now < 4600 \<Longrightarrow> jwt_verify (token_of u) ''s3cret'' now = Inr (claims_of u)"
  by (simp add: jwt_verify_def token_of_def claims_of_def)

lemma token_of_expired:
  "4600 \<le> now \<Longrightarrow> jwt_verify (token_of u) ''s3cret'' now = Inl TokenExpiredError"
  by (simp add: jwt_verify_def token_of_def claims_of_def)

lemma forged_token_invalid:
  "jwt_verify forged_token ''s3cret'' now = Inl (JsonWebTokenError ''invalid signature'')"
  by (simp add: jwt_verify_def forged_token_def)



subsection \<open>Rejections by the gate\<close>

text \<open>
  C7, as the code has it. The gate answers 403 for a header that is absent or empty, and
  401 with the same message for every token that does not verify, an expired token and a
  token with a wrong signature alike. In both cases the answer does not depend on the
  protected handler \<open>next\<close>, which is called only when the token verifies, with its
  claims.
\<close>

theorem gate_rejections:
  "(token = None \<or> token = Some (Malformed []) \<longrightarrow>
      verifyToken key now token res next = res (Response 403 (Text ''Token required'')))
   \<and> (\<forall>t err. token = Some t \<and> t \<noteq> Malformed [] \<and> jwt_verify t key now = Inl err \<longrightarrow>
         verifyToken key now token res next = res (Response 401 (Text ''Invalid token'')))
   \<and> (\<forall>t e. token = Some (Signed t) \<and> alg t = HS256 \<and> signing_key t = key
              \<and> exp_claim (payload t) = Some e \<and> e \<le> now \<longrightarrow>
         jwt_verify (Signed t) key now = Inl TokenExpiredError
         \<and> verifyToken key now token res next = res (Response 401 (Text ''Invalid token'')))
   \<and> (\<forall>t. token = Some (Signed t) \<and> signing_key t \<noteq> key \<longrightarrow>
         (\<exists>msg. jwt_verify (Signed t) key now = Inl (JsonWebTokenError msg))
         \<and> verifyToken key now token res next = res (Response 401 (Text ''Invalid token'')))
   \<and> (\<forall>t u. token = Some t \<and> jwt_verify t key now = Inr u \<longrightarrow>
         verifyToken key now token res next = next u)"
proof (intro conjI allI impI)
  assume "token = None \<or> token = Some (Malformed [])"
  then show "verifyToken key now token res next = res (Response 403 (Text ''Token required''))"
    by (auto simp: verifyToken_def)
next
  fix t err
  assume "token = Some t \<and> t \<noteq> Malformed [] \<and> jwt_verify t key now = Inl err"
  then show "verifyToken key now token res next = res (Response 401 (Text ''Invalid token''))"
    by (simp add: verifyToken_def)
next
  fix t e
  assume a: "token = Some (Signed t) \<and> alg t = HS256 \<and> signing_key t = key
              \<and> exp_claim (payload t) = Some e \<and> e \<le> now"
  then show "jwt_verify (Signed t) key now = Inl TokenExpiredError"
    by (simp add: jwt_verify_expired)
  with a show "verifyToken key now token res next = res (Response 401 (Text ''Invalid token''))"
    by (simp add: verifyToken_def)
next
  fix t
  assume a: "token = Some (Signed t) \<and> signing_key t \<noteq> key"
  then show "\<exists>msg. jwt_verify (Signed t) key now = Inl (JsonWebTokenError msg)"
    by (simp add: jwt_verify_forged)
  with a show "verifyToken key now token res next = res (Response 401 (Text ''Invalid token''))"
    by (auto simp: verifyToken_def)
next
  fix t u
  assume "token = Some t \<and> jwt_verify t key now = Inr u"
  then show "verifyToken key now token res next = next u"
    by (simp add: verifyToken_pass)
qed

theorem gate_rejections_witness:
  "verifyToken ''s3cret'' 5000 None (\<lambda>r. r) sample_handler
     = Response 403 (Text ''Token required'')
   \<and> verifyToken ''s3cret'' 5000 (Some (Malformed [])) (\<lambda>r. r) sample_handler
       = Response 403 (Text ''Token required'')
   \<and> jwt_verify (Malformed ''garbage'') ''s3cret'' 5000 = Inl (JsonWebTokenError ''jwt malformed'')
   \<and> verifyToken ''s3cret'' 5000 (Some (Malformed ''garbage'')) (\<lambda>r. r) sample_handler
       = Response 401 (Text ''Invalid token'')
   \<and> jwt_verify (token_of ''alice'') ''s3cret'' 5000 = Inl TokenExpiredError
   \<and> verifyToken ''s3cret'' 5000 (Some (token_of ''alice'')) (\<lambda>r. r) sample_handler
       = Response 401 (Text ''Invalid token'')
   \<and> jwt_verify forged_token ''s3cret'' 2000 = Inl (JsonWebTokenError ''invalid signature'')
   \<and> verifyToken ''s3cret'' 2000 (Some forged_token) (\<lambda>r. r) sample_handler
       = Response 401 (Text ''Invalid token'')
   \<and> jwt_verify (token_of ''alice'') ''s3cret'' 2000 = Inr (claims_of ''alice'')
   \<and> verifyToken ''s3cret'' 2000 (Some (token_of ''alice'')) (\<lambda>r. r) sample_handler
       = Response 200 (Text ''handler ran'')"
proof -
  have m: "jwt_verify (Malformed ''garbage'') ''s3cret'' 5000
      = Inl (JsonWebTokenError ''jwt malformed'')"
    by (simp add: jwt_verify_def)
  have e: "jwt_verify (token_of ''alice'') ''s3cret'' 5000 = Inl TokenExpiredError"
    by (simp add: token_of_expired)
  have v: "jwt_verify (token_of ''alice'') ''s3cret'' 2000 = Inr (claims_of ''alice'')"
    by (simp add: token_of_valid)
  have ne: "token_of ''alice'' \<noteq> Malformed []" "forged_token \<noteq> Malformed []"
    by (simp_all add: token_of_def forged_token_def)
  show ?thesis
    using gate_rejections [of None "''s3cret''" 5000 "\<lambda>r. r" sample_handler]
      gate_rejections [of "Some (Malformed [])" "''s3cret''" 5000 "\<lambda>r. r" sample_handler]
      gate_rejections [of "Some (Malformed ''garbage'')" "''s3cret''" 5000 "\<lambda>r. r" sample_handler]
      gate_rejections [of "Some (token_of ''alice'')" "''s3cret''" 5000 "\<lambda>r. r" sample_handler]
      gate_rejections [of "Some forged_token" "''s3cret''" 2000 "\<lambda>r. r" sample_handler]
      gate_rejections [of "Some (token_of ''alice'')" "''s3cret''" 2000 "\<lambda>r. r" sample_handler]
      m e v ne forged_token_invalid [of 2000]
    by (simp add: sample_handler_def)
qed

text \<open>
  The statement of C7 with three pairwise different statuses does not hold: an expired
  token and a token signed with another key are both answered with 401.
\<close>

theorem gate_status_counterexample:
  "jwt_verify (token_of ''alice'') ''s3cret'' 5000 = Inl TokenExpiredError
   \<and> jwt_verify forged_token ''s3cret'' 5000 = Inl (JsonWebTokenError ''invalid signature'')
   \<and> verifyToken ''s3cret'' 5000 (Some (token_of ''alice'')) id sample_handler
       = Response 401 (Text ''Invalid token'')
   \<and> verifyToken ''s3cret'' 5000 (Some forged_token) id sample_handler
       = Response 401 (Text ''Invalid token'')
   \<and> status (verifyToken ''s3cret'' 5000 (Some (token_of ''alice'')) id sample_handler)
       = status (verifyToken ''s3cret'' 5000 (Some forged_token) id sample_handler)"
proof -
  have ne: "token_of ''alice'' \<noteq> Malformed []" "forged_token \<noteq> Malformed []"
    by (simp_all add: token_of_def forged_token_def)
  have e: "jwt_verify (token_of ''alice'') ''s3cret'' 5000 = Inl TokenExpiredError"
    by (simp add: token_of_expired)
  show ?thesis
    using ne e by (simp add: verifyToken_def forged_token_invalid)
qed

subsection \<open>The token issued at login\<close>




subsection \<open>Update and delete do not check the owner\<close>

text \<open>
  C10. The handlers of \<^verbatim>\<open>PUT /portfolio/:id\<close> and \<^verbatim>\<open>DELETE /portfolio/:id\<close> return the
  same response and leave the same store for any two authenticated users, at the handler
  and at the route behind the gate. With an available store, a delete by any
  authenticated user removes the document with the given id, and an update by any
  authenticated user with a patch that is not empty patches the document with that id
  when it exists, whoever owns it.
\<close>

theorem no_ownership_check:
  "put_portfolio db req u1 = put_portfolio db req u2
   \<and> delete_portfolio db req u1 = delete_portfolio db req u2
   \<and> (\<forall>t1 t2. jwt_verify t1 key now = Inr u1 \<and> jwt_verify t2 key now = Inr u2 \<longrightarrow>
         route_put key now db (req\<lparr>authorization := Some t1\<rparr>)
           = route_put key now db (req\<lparr>authorization := Some t2\<rparr>)
         \<and> route_delete key now db (req\<lparr>authorization := Some t1\<rparr>)
             = route_delete key now db (req\<lparr>authorization := Some t2\<rparr>))
   \<and> (\<forall>t. jwt_verify t key now = Inr u1 \<and> fault db = None \<longrightarrow>
         route_delete key now db (req\<lparr>authorization := Some t\<rparr>)
           = (Response 200 (Text ''Stock removed''),
              db\<lparr>portfolios := filter (\<lambda>d. doc_id d \<noteq> params_id req) (portfolios db)\<rparr>))
   \<and> (\<forall>t. jwt_verify t key now = Inr u1 \<and> fault db = None \<and> \<not> empty_patch (req_body req)
            \<and> list_ex (\<lambda>d. doc_id d = params_id req) (portfolios db) \<longrightarrow>
         route_put key now db (req\<lparr>authorization := Some t\<rparr>)
           = (Response 200 (Text ''Stock updated''),
              db\<lparr>portfolios :=
                    map (\<lambda>d. if doc_id d = params_id req
                              then d\<lparr>doc_data := apply_patch (req_body req) (doc_data d)\<rparr>
                              else d)
                        (portfolios db)\<rparr>))"
proof (intro conjI allI impI)
  show "put_portfolio db req u1 = put_portfolio db req u2"
    by (simp add: put_portfolio_def)
  show "delete_portfolio db req u1 = delete_portfolio db req u2"
    by (simp add: delete_portfolio_def)
next
  fix t1 t2
  assume v: "jwt_verify t1 key now = Inr u1 \<and> jwt_verify t2 key now = Inr u2"
  then show "route_put key now db (req\<lparr>authorization := Some t1\<rparr>)
           = route_put key now db (req\<lparr>authorization := Some t2\<rparr>)"
    by (simp add: route_put_def verifyToken_pass put_portfolio_def)
  from v show "route_delete key now db (req\<lparr>authorization := Some t1\<rparr>)
             = route_delete key now db (req\<lparr>authorization := Some t2\<rparr>)"
    by (simp add: route_delete_def verifyToken_pass delete_portfolio_def)
next
  fix t
  assume "jwt_verify t key now = Inr u1 \<and> fault db = None"
  then show "route_delete key now db (req\<lparr>authorization := Some t\<rparr>)
           = (Response 200 (Text ''Stock removed''),
              db\<lparr>portfolios := filter (\<lambda>d. doc_id d \<noteq> params_id req) (portfolios db)\<rparr>)"
    by (simp add: route_delete_def verifyToken_pass delete_portfolio_def doc_delete_def)
next
  fix t
  assume "jwt_verify t key now = Inr u1 \<and> fault db = None \<and> \<not> empty_patch (req_body req)
            \<and> list_ex (\<lambda>d. doc_id d = params_id req) (portfolios db)"
  then show "route_put key now db (req\<lparr>authorization := Some t\<rparr>)
           = (Response 200 (Text ''Stock updated''),
              db\<lparr>portfolios :=
                    map (\<lambda>d. if doc_id d = params_id req
                              then d\<lparr>doc_data := apply_patch (req_body req) (doc_data d)\<rparr>
                              else d)
                        (portfolios db)\<rparr>)"
    by (simp add: route_put_def verifyToken_pass put_portfolio_def doc_update_def)
qed

theorem no_ownership_check_witness:
  "uid (doc_data doc_AAA) = ''alice''
   \<and> jwt_verify (token_of ''alice'') ''s3cret'' 2000 = Inr (claims_of ''alice'')
   \<and> jwt_verify (token_of ''bob'') ''s3cret'' 2000 = Inr (claims_of ''bob'')
   \<and> route_put ''s3cret'' 2000 sample_db (sample_request ''alice'' ''h1'')
       = route_put ''s3cret'' 2000 sample_db (sample_request ''bob'' ''h1'')
   \<and> route_delete ''s3cret'' 2000 sample_db (sample_request ''alice'' ''h1'')
       = route_delete ''s3cret'' 2000 sample_db (sample_request ''bob'' ''h1'')
   \<and> route_delete ''s3cret'' 2000 sample_db (sample_request ''bob'' ''h1'')
       = (Response 200 (Text ''Stock removed''), \<lparr>portfolios = [doc_CCC, doc_BAD], fault = None\<rparr>)
   \<and> route_put ''s3cret'' 2000 sample_db (sample_request ''bob'' ''h1'')
       = (Response 200 (Text ''Stock updated''),
          \<lparr>portfolios = [doc_AAA\<lparr>doc_data := (doc_data doc_AAA)\<lparr>quantity := Fin 0\<rparr>\<rparr>,
                          doc_CCC, doc_BAD],
           fault = None\<rparr>)"
proof -
  have va: "jwt_verify (token_of ''alice'') ''s3cret'' 2000 = Inr (claims_of ''alice'')"
    and vb: "jwt_verify (token_of ''bob'') ''s3cret'' 2000 = Inr (claims_of ''bob'')"
    by (simp_all add: token_of_valid)
  have ra: "(sample_request ''bob'' ''h1'')\<lparr>authorization := Some (token_of ''alice'')\<rparr>
      = sample_request ''alice'' ''h1''"
    and rb: "(sample_request ''bob'' ''h1'')\<lparr>authorization := Some (token_of ''bob'')\<rparr>
      = sample_request ''bob'' ''h1''"
    by (simp_all add: sample_request_def)
  have f: "fault sample_db = None"
    by (simp add: sample_db_def)
  have p: "\<not> empty_patch (req_body (sample_request ''bob'' ''h1''))"
    by (simp add: empty_patch_def sample_request_def)
  have ex: "list_ex (\<lambda>d. doc_id d = params_id (sample_request ''bob'' ''h1'')) (portfolios sample_db)"
    by (simp add: sample_request_def sample_db_def doc_AAA_def)
  have del: "filter (\<lambda>d. doc_id d \<noteq> params_id (sample_request ''bob'' ''h1'')) (portfolios sample_db)
      = [doc_CCC, doc_BAD]"
    by (simp add: sample_request_def sample_db_def doc_AAA_def doc_BAD_def doc_CCC_def)
  have upd: "map (\<lambda>d. if doc_id d = params_id (sample_request ''bob'' ''h1'')
                       then d\<lparr>doc_data := apply_patch (req_body (sample_request ''bob'' ''h1''))
                                                       (doc_data d)\<rparr>
                       else d)
                 (portfolios sample_db)
      = [doc_AAA\<lparr>doc_data := (doc_data doc_AAA)\<lparr>quantity := Fin 0\<rparr>\<rparr>, doc_CCC, doc_BAD]"
    by (simp add: sample_request_def sample_db_def apply_patch_def doc_AAA_def doc_BAD_def
        doc_CCC_def)
  have db: "sample_db\<lparr>portfolios := xs\<rparr> = \<lparr>portfolios = xs, fault = None\<rparr>" for xs
    by (simp add: sample_db_def)
  note th = no_ownership_check [of sample_db "sample_request ''bob'' ''h1''" "claims_of ''bob''"
      "claims_of ''alice''" "''s3cret''" 2000]
  from th va vb have
    "route_put ''s3cret'' 2000 sample_db
        ((sample_request ''bob'' ''h1'')\<lparr>authorization := Some (token_of ''bob'')\<rparr>)
      = route_put ''s3cret'' 2000 sample_db
          ((sample_request ''bob'' ''h1'')\<lparr>authorization := Some (token_of ''alice'')\<rparr>)"
    "route_delete ''s3cret'' 2000 sample_db
        ((sample_request ''bob'' ''h1'')\<lparr>authorization := Some (token_of ''bob'')\<rparr>)
      = route_delete ''s3cret'' 2000 sample_db
          ((sample_request ''bob'' ''h1'')\<lparr>authorization := Some (token_of ''alice'')\<rparr>)"
    by blast+
  moreover from th vb f have
    "route_delete ''s3cret'' 2000 sample_db
        ((sample_request ''bob'' ''h1'')\<lparr>authorization := Some (token_of ''bob'')\<rparr>)
      = (Response 200 (Text ''Stock removed''),
         sample_db\<lparr>portfolios := filter (\<lambda>d. doc_id d \<noteq> params_id (sample_request ''bob'' ''h1''))
                                         (portfolios sample_db)\<rparr>)"
    by blast
  moreover from th vb f p ex have
    "route_put ''s3cret'' 2000 sample_db
        ((sample_request ''bob'' ''h1'')\<lparr>authorization := Some (token_of ''bob'')\<rparr>)
      = (Response 200 (Text ''Stock updated''),
         sample_db\<lparr>portfolios :=
            map (\<lambda>d. if doc_id d = params_id (sample_request ''bob'' ''h1'')
                       then d\<lparr>doc_data := apply_patch (req_body (sample_request ''bob'' ''h1''))
                                                       (doc_data d)\<rparr>
                       else d)
                 (portfolios sample_db)\<rparr>)"
    by blast
  ultimately show ?thesis
    using va vb by (simp add: ra rb del upd db doc_AAA_def)
qed

end
